theory Spec2Isabelle
  imports Main "HOL-Library.Sublist"
begin

section \<open>Tables\<close>

text \<open>
  The dashboard (\<^verbatim>\<open>dashboard.py\<close>) reads an uploaded CSV file into a pandas
  DataFrame and works on it through library calls only. The embedding keeps the
  data the script sees: a table is the ordered list of its column labels and the
  list of its records, a record giving one cell per label. A cell is missing
  (pandas' NaN, what \<^verbatim>\<open>read_csv\<close> makes of an empty field), a number or a string.
  Numbers are integers here: floating-point rounding is outside the model.
\<close>

datatype cell = NaN | Num int | Str string

type_synonym row = "string \<Rightarrow> cell"

record dataframe =
  columns :: "string list"
  rows :: "row list"

text \<open>\<^verbatim>\<open>df[c]\<close>: the column under label \<open>c\<close>, top to bottom.\<close>

definition getcol :: "dataframe \<Rightarrow> string \<Rightarrow> cell list" where
  "getcol df c = map (\<lambda>r. r c) (rows df)"

text \<open>\<^verbatim>\<open>df.shape\<close>: (number of rows, number of columns).\<close>

definition shape :: "dataframe \<Rightarrow> nat \<times> nat" where
  "shape df = (length (rows df), length (columns df))"

text \<open>\<^verbatim>\<open>isna\<close> on one cell, and \<^verbatim>\<open>df.isna().sum()\<close>: for every column, in order,
  the number of its missing cells. The second \<^verbatim>\<open>.sum()\<close> adds these counts.\<close>

definition isna :: "cell \<Rightarrow> bool" where
  "isna v = (v = NaN)"

definition isna_sum :: "dataframe \<Rightarrow> nat list" where
  "isna_sum df = map (\<lambda>c. length (filter isna (getcol df c))) (columns df)"

definition isna_sum_sum :: "dataframe \<Rightarrow> nat" where
  "isna_sum_sum df = sum_list (isna_sum df)"

section \<open>Summary metrics\<close>

subsection \<open>Thousands separators\<close>

text \<open>
  The row count is shown as \<^verbatim>\<open>f"{df.shape[0]:,}"\<close>: the decimal digits of the number,
  a comma before every group of three digits counted from the right.
\<close>

definition digit_char :: "nat \<Rightarrow> char" where
  "digit_char d = char_of (48 + d)"

fun decimal :: "nat \<Rightarrow> string" where
  "decimal n = (if n < 10 then [digit_char n] else decimal (n div 10) @ [digit_char (n mod 10)])"

declare decimal.simps [simp del]

function group3 :: "string \<Rightarrow> string" where
  "group3 s = (if length s \<le> 3 then s
               else group3 (take (length s - 3) s) @ CHR '','' # drop (length s - 3) s)"
  by pat_completeness auto
termination
  by (relation "measure length") auto

declare group3.simps [simp del]

definition format_thousands :: "nat \<Rightarrow> string" where
  "format_thousands n = group3 (decimal n)"

text \<open>Reading a displayed count back: drop the separators, read the digits.\<close>

definition digit_val :: "char \<Rightarrow> nat" where
  "digit_val c = of_char c - 48"

definition read_decimal :: "string \<Rightarrow> nat" where
  "read_decimal s = foldl (\<lambda>a c. 10 * a + digit_val c) 0 s"

definition read_thousands :: "string \<Rightarrow> nat" where
  "read_thousands s = read_decimal (filter (\<lambda>c. c \<noteq> CHR '','') s)"

subsection \<open>The three metrics\<close>

datatype metric_value = Text string | Count nat

datatype metric = Metric string metric_value

text \<open>
  \<^verbatim>\<open>col1.metric("Total Rows", f"{df.shape[0]:,}")\<close>,
  \<^verbatim>\<open>col2.metric("Total Columns", df.shape[1])\<close>,
  \<^verbatim>\<open>col3.metric("Missing Values", df.isna().sum().sum())\<close>.
\<close>

definition metrics_section :: "dataframe \<Rightarrow> metric list" where
  "metrics_section df =
     [Metric ''Total Rows'' (Text (format_thousands (fst (shape df)))),
      Metric ''Total Columns'' (Count (snd (shape df))),
      Metric ''Missing Values'' (Count (isna_sum_sum df))]"

text \<open>The count of missing cells taken cell by cell, record after record.\<close>

definition empty_cells :: "dataframe \<Rightarrow> nat" where
  "empty_cells df =
     (\<Sum>r\<leftarrow>rows df. \<Sum>c\<leftarrow>columns df. if isna (r c) then 1 else 0)"

section \<open>Loading\<close>

text \<open>
  An uploaded file is its name and its bytes; the file uploader hands the script a
  fresh handle on them at every run. The parser \<^verbatim>\<open>pd.read_csv\<close> belongs to pandas
  and is a parameter of the model: it returns a table or raises.
\<close>

record uploaded_file =
  file_name :: string
  file_bytes :: string

datatype error =
    EmptyDataError string
  | ParserError string
  | UnicodeDecodeError string
  | KeyError string
  | ValueError string

text \<open>\<^verbatim>\<open>str(e)\<close>, as the f-string of the handler prints it.\<close>

fun message :: "error \<Rightarrow> string" where
  "message (EmptyDataError m) = m"
| "message (ParserError m) = m"
| "message (UnicodeDecodeError m) = m"
| "message (KeyError k) = [CHR 0x27] @ k @ [CHR 0x27]"
| "message (ValueError m) = m"

section \<open>Column classification\<close>

text \<open>
  \<^verbatim>\<open>df.select_dtypes(include=['float', 'int']).columns.tolist()\<close>: the labels, in table
  order, of the columns with an integer or floating-point dtype. The dtype is the
  one \<^verbatim>\<open>read_csv\<close> infers: numeric when the table has records and every field of
  the column is a number or empty (a column of a table without records is of
  object dtype).
\<close>

definition is_numeric :: "dataframe \<Rightarrow> string \<Rightarrow> bool" where
  "is_numeric df c =
     (rows df \<noteq> [] \<and> (\<forall>v\<in>set (getcol df c). case v of Str _ \<Rightarrow> False | _ \<Rightarrow> True))"

definition numeric_cols :: "dataframe \<Rightarrow> string list" where
  "numeric_cols df = filter (is_numeric df) (columns df)"

section \<open>Selection widgets\<close>

text \<open>
  What the user has set in the four widgets; \<open>None\<close> for a widget not touched yet,
  which then shows its default.
\<close>

record selection =
  x_pick :: "string option"
  y_pick :: "string option"
  color_pick :: "string option"
  items_pick :: "cell list option"

text \<open>\<^verbatim>\<open>list.index\<close>: the position of the first occurrence. The script calls it
  only under the test \<^verbatim>\<open>name in list\<close>.\<close>

definition list_index :: "'a list \<Rightarrow> 'a \<Rightarrow> nat" where
  "list_index xs a = length (takeWhile (\<lambda>b. b \<noteq> a) xs)"

text \<open>
  \<^verbatim>\<open>st.selectbox(label, options, index=i)\<close> returns the option the user picked, and
  the option at position \<open>i\<close> while none is picked. \<^verbatim>\<open>st.multiselect\<close> returns the
  picked options, in the order picked, and the default while the widget is
  untouched; only offered options can be picked.
\<close>

definition selectbox :: "'a list \<Rightarrow> nat \<Rightarrow> 'a option \<Rightarrow> 'a" where
  "selectbox options i pick =
     (case pick of
        Some v \<Rightarrow> if v \<in> set options then v else options ! i
      | None \<Rightarrow> options ! i)"

definition multiselect :: "'a list \<Rightarrow> 'a list \<Rightarrow> 'a list option \<Rightarrow> 'a list" where
  "multiselect options dflt pick =
     (case pick of
        Some vs \<Rightarrow> filter (\<lambda>v. v \<in> set options) vs
      | None \<Rightarrow> dflt)"

text \<open>\<^verbatim>\<open>Series.unique()\<close>: the distinct values in order of first appearance; the
  missing value is one of them when the column has a missing cell.\<close>

fun unique_from :: "'a list \<Rightarrow> 'a list \<Rightarrow> 'a list" where
  "unique_from seen [] = []"
| "unique_from seen (v # vs) =
     (if v \<in> set seen then unique_from seen vs else v # unique_from (v # seen) vs)"

definition unique :: "'a list \<Rightarrow> 'a list" where
  "unique vs = unique_from [] vs"

text \<open>The three single-choice pickers and the multi-choice picker of the script, in
  the script's order: X axis, Y axis, colour column, offered items, selected items.\<close>

record selection_state =
  x_axis :: string
  y_axis :: string
  color_col :: string
  unique_items :: "cell list"
  selected_items :: "cell list"

definition pickers :: "dataframe \<Rightarrow> selection \<Rightarrow> selection_state" where
  "pickers df ui =
     (let all_cols = columns df;
          default_x = (if ''wm_yr_wk'' \<in> set all_cols
                       then list_index all_cols ''wm_yr_wk'' else 0);
          x = selectbox all_cols default_x (x_pick ui);
          default_y = (if ''Week_of_Supply'' \<in> set (numeric_cols df)
                       then list_index (numeric_cols df) ''Week_of_Supply'' else 0);
          y = selectbox (numeric_cols df) default_y (y_pick ui);
          default_color = (if ''walmart_item_number'' \<in> set all_cols
                           then list_index all_cols ''walmart_item_number'' else 0);
          c = selectbox all_cols default_color (color_pick ui);
          items = unique (getcol df c)
      in \<lparr>x_axis = x, y_axis = y, color_col = c, unique_items = items,
          selected_items = multiselect items (take 5 items) (items_pick ui)\<rparr>)"

section \<open>Aggregation\<close>

text \<open>
  \<^verbatim>\<open>Series.isin(values)\<close> gives one truth value per cell (a missing cell is in
  \<open>values\<close> when \<open>values\<close> holds the missing value), and \<^verbatim>\<open>df[mask]\<close> is a new
  table of the records whose mask entry is true.
\<close>

definition isin :: "cell list \<Rightarrow> cell list \<Rightarrow> bool list" where
  "isin col vals = map (\<lambda>v. v \<in> set vals) col"

definition boolean_index :: "dataframe \<Rightarrow> bool list \<Rightarrow> dataframe" where
  "boolean_index df keep =
     \<lparr>columns = columns df, rows = map fst (filter snd (zip (rows df) keep))\<rparr>"

text \<open>
  \<^verbatim>\<open>groupby([x, g])[y].sum()\<close> as pandas runs it: the records are visited in order;
  a record with a missing key is left out; the others add their \<open>y\<close> value to the
  running sum of their key pair, a missing \<open>y\<close> adding nothing.
\<close>

type_synonym groups = "((cell \<times> cell) \<times> int) list"

fun add_to_group :: "cell \<times> cell \<Rightarrow> int \<Rightarrow> groups \<Rightarrow> groups" where
  "add_to_group k v [] = [(k, v)]"
| "add_to_group k v ((k', s) # gs) =
     (if k' = k then (k', s + v) # gs else (k', s) # add_to_group k v gs)"

definition number :: "cell \<Rightarrow> int" where
  "number v = (case v of Num n \<Rightarrow> n | _ \<Rightarrow> 0)"

fun groupby_sum :: "string \<Rightarrow> string \<Rightarrow> string \<Rightarrow> row list \<Rightarrow> groups \<Rightarrow> groups" where
  "groupby_sum x g y [] gs = gs"
| "groupby_sum x g y (r # rs) gs =
     (if isna (r x) \<or> isna (r g) then groupby_sum x g y rs gs
      else groupby_sum x g y rs (add_to_group (r x, r g) (number (r y)) gs))"

text \<open>
  The reshaped table: its row labels, its column labels and its cells, a cell being
  absent where no group exists. pandas sorts both label sequences; their order is
  not modelled, they are kept as sets.
\<close>

record pivot =
  index :: "cell set"
  column_labels :: "cell set"
  value_at :: "cell \<Rightarrow> cell \<Rightarrow> int option"

definition unstack :: "groups \<Rightarrow> pivot" where
  "unstack gs =
     \<lparr>index = set (map (fst \<circ> fst) gs),
      column_labels = set (map (snd \<circ> fst) gs),
      value_at = (\<lambda>vx vg. map_of gs (vx, vg))\<rparr>"

text \<open>
  The library, as far as the script needs it and the model does not compute it:
  the parser, and what \<^verbatim>\<open>pivot_table\<close> returns in the one case described below.
\<close>

record library =
  read_csv :: "uploaded_file \<Rightarrow> error + dataframe"
  pivot_unfiltered :: "dataframe \<Rightarrow> string \<Rightarrow> string \<Rightarrow> string \<Rightarrow> error + pivot"

text \<open>
  \<^verbatim>\<open>data.pivot_table(index=x, columns=g, values=y, aggfunc='sum')\<close>. pandas checks
  that the labels are in the table, then narrows the table to the columns
  \<^verbatim>\<open>[x, g, y]\<close> when it has more columns than these three entries, groups by
  \<^verbatim>\<open>[x, g]\<close>, sums and unstacks \<open>g\<close>. When two of the three labels are the same,
  the narrowed table has that column twice and the grouping raises
  \<^verbatim>\<open>ValueError("Grouper for '...' not 1-dimensional")\<close>, naming the first repeated
  key. When two labels are the same and the table has at most three columns,
  nothing is narrowed and what comes out is left to \<open>pivot_unfiltered\<close>.
\<close>

definition pivot_table ::
    "library \<Rightarrow> dataframe \<Rightarrow> string \<Rightarrow> string \<Rightarrow> string \<Rightarrow> error + pivot" where
  "pivot_table lib data x g y =
     (let keys = [x, g]; to_filter = keys @ [y] in
      if y \<notin> set (columns data) then Inl (KeyError y)
      else if x \<notin> set (columns data) then Inl (KeyError x)
      else if g \<notin> set (columns data) then Inl (KeyError g)
      else if distinct to_filter then Inr (unstack (groupby_sum x g y (rows data) []))
      else if length to_filter < length (columns data) then
        Inl (ValueError (''Grouper for '' @ [CHR 0x27] @ (if x = g \<or> x = y then x else g)
                         @ [CHR 0x27] @ '' not 1-dimensional''))
      else pivot_unfiltered lib data x g y)"

section \<open>The page\<close>

text \<open>
  \<^verbatim>\<open>@st.cache_data def load_data(file): return pd.read_csv(file)\<close>. The decorator keeps
  the returned table under the argument and returns the kept table on a later call
  with the same argument, without running the body; a call that raises keeps
  nothing. The third component counts the calls of the parser.
\<close>

type_synonym cache = "uploaded_file \<rightharpoonup> dataframe"

definition load_data ::
    "library \<Rightarrow> cache \<Rightarrow> uploaded_file \<Rightarrow> (error + dataframe) \<times> cache \<times> nat" where
  "load_data lib cache file =
     (case cache file of
        Some df \<Rightarrow> (Inr df, cache, 0)
      | None \<Rightarrow>
          (case read_csv lib file of
             Inl e \<Rightarrow> (Inl e, cache, 1)
           | Inr df \<Rightarrow> (Inr df, cache(file \<mapsto> df), 1)))"

text \<open>What a run puts on the page, in order. The pictographs of the title and of
  the waiting note are left out of the texts.\<close>

datatype event =
    Spinner string
  | Show_metric metric
  | Preview "row list"
  | Divider
  | Subheader string
  | Selectbox string "string list" nat
  | Write string
  | Info string
  | Multiselect string "cell list" "cell list"
  | Bar_chart pivot
  | Chart_data pivot
  | Warning string
  | Error string

fun is_chart :: "event \<Rightarrow> bool" where
  "is_chart (Bar_chart p) = True"
| "is_chart (Chart_data p) = True"
| "is_chart e = False"


fun is_error :: "event \<Rightarrow> bool" where
  "is_error (Error m) = True"
| "is_error e = False"

text \<open>The plotting section (from \<^verbatim>\<open>st.divider()\<close> on): what it shows, and the
  exception that ended it, if one did.\<close>

definition picker_widgets :: "dataframe \<Rightarrow> selection_state \<Rightarrow> event list" where
  "picker_widgets df s =
     (let all_cols = columns df in
      [Selectbox ''X-Axis (Time)'' all_cols
         (if ''wm_yr_wk'' \<in> set all_cols then list_index all_cols ''wm_yr_wk'' else 0),
       Selectbox ''Y-Axis (Value)'' (numeric_cols df)
         (if ''Week_of_Supply'' \<in> set (numeric_cols df)
          then list_index (numeric_cols df) ''Week_of_Supply'' else 0),
       Selectbox ''Color Code By'' all_cols
         (if ''walmart_item_number'' \<in> set all_cols
          then list_index all_cols ''walmart_item_number'' else 0),
       Write (''### Filter by '' @ color_col s),
       Info ''Select specific items to compare. Showing top 5 by default.'',
       Multiselect (''Choose specific '' @ color_col s @ ''s to view:'')
         (unique_items s) (take 5 (unique_items s))])"

definition plotting_section ::
    "library \<Rightarrow> dataframe \<Rightarrow> selection \<Rightarrow> event list \<times> error option" where
  "plotting_section lib df ui =
     (if numeric_cols df \<noteq> [] then
        (let s = pickers df ui in
         if selected_items s \<noteq> [] then
           (let filtered_df = boolean_index df (isin (getcol df (color_col s)) (selected_items s))
            in case pivot_table lib filtered_df (x_axis s) (color_col s) (y_axis s) of
                 Inl e \<Rightarrow> (picker_widgets df s, Some e)
               | Inr chart_data \<Rightarrow>
                   (picker_widgets df s @ [Bar_chart chart_data, Chart_data chart_data], None))
         else
           (picker_widgets df s @
              [Warning ''Please select at least one item from the box above to generate the chart.''],
            None))
      else ([Warning ''No numeric columns found in this CSV to plot.''], None))"

text \<open>The body of the \<^verbatim>\<open>try\<close> block: what it shows, the exception that ended it, if
  one did, and the cache it leaves.\<close>

definition try_body ::
    "library \<Rightarrow> cache \<Rightarrow> uploaded_file \<Rightarrow> selection \<Rightarrow> event list \<times> error option \<times> cache" where
  "try_body lib cache file ui =
     (case load_data lib cache file of
        (Inl e, cache', n) \<Rightarrow> ([Spinner ''Loading data...''], Some e, cache')
      | (Inr df, cache', n) \<Rightarrow>
          (let (shown, exc) = plotting_section lib df ui in
           ([Spinner ''Loading data...''] @ map Show_metric (metrics_section df) @
            [Preview (take 5 (rows df)), Divider, Subheader ''Visualize Your Data''] @ shown,
            exc, cache')))"

text \<open>The main page: \<^verbatim>\<open>if uploaded_file is not None: try: ... except Exception as e:
  st.error(f"Error processing file: {e}") else: st.info(...)\<close>.\<close>

definition main_page ::
    "library \<Rightarrow> cache \<Rightarrow> uploaded_file option \<Rightarrow> selection \<Rightarrow> event list \<times> cache" where
  "main_page lib cache uploaded ui =
     (case uploaded of
        Some file \<Rightarrow>
          (case try_body lib cache file ui of
             (shown, None, cache') \<Rightarrow> (shown, cache')
           | (shown, Some e, cache') \<Rightarrow>
               (shown @ [Error (''Error processing file: '' @ message e)], cache'))
      | None \<Rightarrow> ([Info ''Waiting for you to upload a CSV file in the sidebar.''], cache))"

section \<open>Notions for the statements, and example data\<close>


text \<open>A record written as its list of (label, cell) pairs; other labels read as missing.
  The table \<open>sales\<close> is the one of the specification's example.\<close>

definition record_of :: "(string \<times> cell) list \<Rightarrow> row" where
  "record_of kvs = (\<lambda>c. case map_of kvs c of Some v \<Rightarrow> v | None \<Rightarrow> NaN)"

definition sales :: dataframe where
  "sales = \<lparr>columns = [''X'', ''G'', ''Y''],
            rows = [record_of [(''X'', Num 1), (''G'', Str ''a''), (''Y'', Num 10)],
                    record_of [(''X'', Num 1), (''G'', Str ''b''), (''Y'', Num 5)],
                    record_of [(''X'', Num 2), (''G'', Str ''a''), (''Y'', Num 3)]]\<rparr>"


definition wide :: dataframe where
  "wide = \<lparr>columns = [''A'', ''B'', ''C'', ''D''],
           rows = [record_of [(''A'', Num 1), (''B'', Num 2), (''C'', Num 3), (''D'', Num 4)]]\<rparr>"

definition names_only :: dataframe where
  "names_only = \<lparr>columns = [''first'', ''last''],
                 rows = [record_of [(''first'', Str ''Ada''), (''last'', Str ''Lovelace'')]]\<rparr>"

definition fixture :: library where
  "fixture =
     \<lparr>read_csv = (\<lambda>f. if file_name f = ''sales.csv'' then Inr sales
                      else if file_name f = ''wide.csv'' then Inr wide
                      else if file_name f = ''names.csv'' then Inr names_only
                      else Inl (ParserError ''Error tokenizing data'')),
      pivot_unfiltered = (\<lambda>data x g y. Inl (ValueError ''unfiltered''))\<rparr>"


definition only_b :: selection where
  "only_b = \<lparr>x_pick = None, y_pick = None, color_pick = Some ''G'', items_pick = Some [Str ''b'']\<rparr>"

definition nothing_selected :: selection where
  "nothing_selected =
     \<lparr>x_pick = None, y_pick = None, color_pick = Some ''G'', items_pick = Some []\<rparr>"


definition sales_csv :: uploaded_file where
  "sales_csv = \<lparr>file_name = ''sales.csv'', file_bytes = ''X,G,Y''\<rparr>"




section \<open>Properties of the summary\<close>

lemma digit_val_digit_char: "d < 10 \<Longrightarrow> digit_val (digit_char d) = d"
  by (simp add: digit_val_def digit_char_def)

lemma digit_char_not_comma: "d < 10 \<Longrightarrow> digit_char d \<noteq> CHR '',''"
proof
  assume d: "d < 10" and eq: "digit_char d = CHR '',''"
  from eq have "of_char (digit_char d) = (of_char (CHR '','') :: nat)" by simp
  with d show False by (simp add: digit_char_def)
qed

lemma read_decimal_snoc: "read_decimal (s @ [c]) = 10 * read_decimal s + digit_val c"
  by (simp add: read_decimal_def)

lemma read_decimal_decimal: "read_decimal (decimal n) = n"
proof (induction n rule: decimal.induct)
  case (1 n)
  show ?case
  proof (cases "n < 10")
    case True
    then show ?thesis
      by (subst decimal.simps) (simp add: read_decimal_def digit_val_digit_char)
  next
    case False
    with 1 have "read_decimal (decimal (n div 10)) = n div 10" by simp
    with False show ?thesis
      by (subst decimal.simps) (simp add: read_decimal_snoc digit_val_digit_char)
  qed
qed

lemma decimal_no_comma: "CHR '','' \<notin> set (decimal n)"
proof (induction n rule: decimal.induct)
  case (1 n)
  show ?case
  proof (cases "n < 10")
    case True
    then show ?thesis
      using digit_char_not_comma [of n] by (subst decimal.simps) auto
  next
    case False
    with 1 have "CHR '','' \<notin> set (decimal (n div 10))" by simp
    with False show ?thesis
      using digit_char_not_comma [of "n mod 10"] by (subst decimal.simps) auto
  qed
qed

lemma filter_group3:
  "CHR '','' \<notin> set s \<Longrightarrow> filter (\<lambda>c. c \<noteq> CHR '','') (group3 s) = s"
proof (induction s rule: group3.induct)
  case (1 s)
  show ?case
  proof (cases "length s \<le> 3")
    case True
    with 1(2) show ?thesis
      by (subst group3.simps) (auto simp add: filter_id_conv)
  next
    case False
    from 1(2) have a: "CHR '','' \<notin> set (take (length s - 3) s)"
      by (meson in_set_takeD)
    from 1(2) have b: "filter (\<lambda>c. c \<noteq> CHR '','') (drop (length s - 3) s) = drop (length s - 3) s"
      by (auto simp add: filter_id_conv dest: in_set_dropD)
    from 1(1) [OF False a] have
      "filter (\<lambda>c. c \<noteq> CHR '','') (group3 (take (length s - 3) s)) = take (length s - 3) s" .
    with False b show ?thesis
      by (subst group3.simps) simp
  qed
qed

lemma read_thousands_format: "read_thousands (format_thousands n) = n"
  by (simp add: read_thousands_def format_thousands_def filter_group3 decimal_no_comma
      read_decimal_decimal)

lemma sum_list_swap:
  "(\<Sum>c\<leftarrow>cs. \<Sum>r\<leftarrow>rs. (f r c :: nat)) = (\<Sum>r\<leftarrow>rs. \<Sum>c\<leftarrow>cs. f r c)"
proof (induction cs)
  case Nil
  then show ?case by simp
next
  case (Cons c cs)
  then show ?case by (simp add: sum_list_addf)
qed

lemma length_filter_sum: "length (filter P xs) = (\<Sum>x\<leftarrow>xs. if P x then 1 else 0)"
  by (induction xs) auto

lemma isna_sum_sum_cells: "isna_sum_sum df = empty_cells df"
proof -
  have "isna_sum_sum df = (\<Sum>c\<leftarrow>columns df. \<Sum>r\<leftarrow>rows df. if isna (r c) then 1 else 0)"
    by (simp add: isna_sum_sum_def isna_sum_def getcol_def length_filter_sum comp_def)
  also have "\<dots> = empty_cells df"
    unfolding empty_cells_def by (rule sum_list_swap)
  finally show ?thesis .
qed

lemma empty_cells_zero:
  "(\<forall>r\<in>set (rows df). \<forall>c\<in>set (columns df). \<not> isna (r c)) \<Longrightarrow> empty_cells df = 0"
  by (simp add: empty_cells_def)

text \<open>
  C2. For a table with R rows and C columns the three metrics are, in order: the
  row count R (written with thousands separators, which read back as R), the
  column count C, and the number of missing cells. That number, computed as the
  sum over the columns of each column's missing count, equals the sum over every
  cell of the is-missing test, and it is 0 when no cell is missing.
\<close>

theorem summary_reporter_counts:
  "\<exists>shown. metrics_section df =
       [Metric ''Total Rows'' (Text shown),
        Metric ''Total Columns'' (Count (length (columns df))),
        Metric ''Missing Values'' (Count (isna_sum_sum df))]
     \<and> read_thousands shown = length (rows df)
     \<and> isna_sum_sum df = sum_list (map (\<lambda>c. length (filter isna (getcol df c))) (columns df))
     \<and> isna_sum_sum df = empty_cells df
     \<and> ((\<forall>r\<in>set (rows df). \<forall>c\<in>set (columns df). \<not> isna (r c)) \<longrightarrow> isna_sum_sum df = 0)"
proof -
  have "isna_sum_sum df = sum_list (map (\<lambda>c. length (filter isna (getcol df c))) (columns df))"
    by (simp add: isna_sum_sum_def isna_sum_def)
  moreover have "(\<forall>r\<in>set (rows df). \<forall>c\<in>set (columns df). \<not> isna (r c)) \<longrightarrow> isna_sum_sum df = 0"
    by (simp add: isna_sum_sum_cells empty_cells_zero)
  ultimately show ?thesis
    by (simp add: metrics_section_def shape_def read_thousands_format isna_sum_sum_cells)
qed

theorem summary_reporter_counts_witness:
  "list_all (\<lambda>r. list_all (\<lambda>c. \<not> isna (r c)) (columns sales)) (rows sales)
   \<and> isna_sum_sum sales = 0
   \<and> metrics_section sales =
       [Metric ''Total Rows'' (Text ''3''), Metric ''Total Columns'' (Count 3),
        Metric ''Missing Values'' (Count 0)]"
proof -
  have full: "\<forall>r\<in>set (rows sales). \<forall>c\<in>set (columns sales). \<not> isna (r c)"
    by (simp add: sales_def record_of_def isna_def)
  have three: "format_thousands 3 = ''3''"
    by code_simp
  from summary_reporter_counts [of sales] full have none: "isna_sum_sum sales = 0"
    by blast
  have "fst (shape sales) = 3" and "snd (shape sales) = 3"
    by (simp_all add: shape_def sales_def)
  with none three have "metrics_section sales =
       [Metric ''Total Rows'' (Text ''3''), Metric ''Total Columns'' (Count 3),
        Metric ''Missing Values'' (Count 0)]"
    by (simp add: metrics_section_def)
  with none full show ?thesis
    by (simp add: list_all_iff)
qed

section \<open>Properties of the aggregation\<close>

lemma filter_zip_map: "map fst (filter snd (zip rs (map f rs))) = filter f rs"
  by (induction rs) auto

lemma rows_boolean_index_isin:
  "rows (boolean_index df (isin (getcol df c) vals)) = filter (\<lambda>r. r c \<in> set vals) (rows df)"
proof -
  have "isin (getcol df c) vals = map (\<lambda>r. r c \<in> set vals) (rows df)"
    by (simp add: isin_def getcol_def)
  then show ?thesis
    by (simp add: boolean_index_def filter_zip_map)
qed















lemma sales_numeric: "numeric_cols sales = [''X'', ''Y'']"
  by (simp add: numeric_cols_def is_numeric_def getcol_def sales_def record_of_def)









section \<open>Properties of the pickers\<close>

lemma set_unique_from: "set (unique_from seen vs) = set vs - set seen"
  by (induction vs arbitrary: seen) auto

lemma distinct_unique_from: "distinct (unique_from seen vs)"
  by (induction vs arbitrary: seen) (auto simp: set_unique_from)



lemma set_unique: "set (unique vs) = set vs"
  by (simp add: unique_def set_unique_from)

lemma distinct_unique: "distinct (unique vs)"
  by (simp add: unique_def distinct_unique_from)



lemma pickers_items:
  "unique_items (pickers df ui) = unique (getcol df (color_col (pickers df ui)))"
  by (simp add: pickers_def Let_def)

lemma pickers_selected:
  "selected_items (pickers df ui) =
     multiselect (unique_items (pickers df ui)) (take 5 (unique_items (pickers df ui))) (items_pick ui)"
  by (simp add: pickers_def Let_def)

lemma multiselect_subset: "set dflt \<subseteq> set options \<Longrightarrow> set (multiselect options dflt pick) \<subseteq> set options"
  by (auto simp: multiselect_def split: option.splits)



lemma sales_G: "getcol sales ''G'' = [Str ''a'', Str ''b'', Str ''a'']"
  by (simp add: getcol_def sales_def record_of_def)

lemma sales_unique_G: "unique (getcol sales ''G'') = [Str ''a'', Str ''b'']"
  by (simp add: sales_G unique_def)


text \<open>
  C10. The options of the multi-choice picker are exactly the distinct values of
  the chosen Group column; what the picker returns is drawn from the options; and
  whenever it returns a non-empty selection, the filtered table has a record.
\<close>

theorem nonempty_selection_keeps_rows:
  "\<exists>s. s = pickers df ui
     \<and> set (unique_items s) = set (getcol df (color_col s))
     \<and> distinct (unique_items s)
     \<and> set (selected_items s) \<subseteq> set (unique_items s)
     \<and> (selected_items s \<noteq> [] \<longrightarrow>
          rows (boolean_index df (isin (getcol df (color_col s)) (selected_items s))) \<noteq> [])"
proof -
  let ?s = "pickers df ui"
  have opts: "set (unique_items ?s) = set (getcol df (color_col ?s))"
    by (simp add: pickers_items set_unique)
  have sub: "set (selected_items ?s) \<subseteq> set (unique_items ?s)"
    unfolding pickers_selected by (rule multiselect_subset) (rule set_take_subset)
  have "rows (boolean_index df (isin (getcol df (color_col ?s)) (selected_items ?s))) \<noteq> []"
    if "selected_items ?s \<noteq> []"
  proof -
    from that obtain v where v: "v \<in> set (selected_items ?s)" by (cases "selected_items ?s") auto
    with sub opts have "v \<in> set (getcol df (color_col ?s))" by blast
    then obtain r where "r \<in> set (rows df)" "r (color_col ?s) = v"
      by (auto simp: getcol_def)
    with v show ?thesis
      by (auto simp: rows_boolean_index_isin filter_empty_conv)
  qed
  with opts sub show ?thesis
    by (simp add: pickers_items distinct_unique)
qed


lemma only_b_state:
  "color_col (pickers sales only_b) = ''G'' \<and> selected_items (pickers sales only_b) = [Str ''b'']"
  by (simp add: pickers_def Let_def selectbox_def multiselect_def only_b_def sales_unique_G)
     (simp add: sales_def)

theorem nonempty_selection_keeps_rows_witness:
  "selected_items (pickers sales only_b) = [Str ''b'']
   \<and> length (rows (boolean_index sales (isin (getcol sales ''G'') [Str ''b'']))) = 1"
proof -
  from nonempty_selection_keeps_rows [of sales only_b]
  have "rows (boolean_index sales (isin (getcol sales ''G'') [Str ''b''])) \<noteq> []"
    by (simp add: only_b_state)
  moreover have "length (rows (boolean_index sales (isin (getcol sales ''G'') [Str ''b'']))) \<le> 1"
    by (simp add: rows_boolean_index_isin sales_def record_of_def)
  ultimately show ?thesis
    by (cases "rows (boolean_index sales (isin (getcol sales ''G'') [Str ''b'']))")
       (simp_all add: only_b_state)
qed

section \<open>Properties of the page\<close>

lemma picker_widgets_plain: "ev \<in> set (picker_widgets df s) \<Longrightarrow> \<not> is_chart ev \<and> \<not> is_error ev"
  by (auto simp: picker_widgets_def Let_def)



text \<open>
  C4. For a loaded table with a numeric column: when the multi-choice picker returns
  the empty selection, the run raises nothing, the page ends with the warning
  "Please select at least one item ...", and it shows no chart and no error.
\<close>

theorem empty_selection_warns:
  assumes loaded: "load_data lib cache file = (Inr df, cache', n)"
    and numeric: "numeric_cols df \<noteq> []"
    and empty: "selected_items (pickers df ui) = []"
  shows "\<exists>page. main_page lib cache (Some file) ui = (page, cache')
    \<and> page = [Spinner ''Loading data...''] @ map Show_metric (metrics_section df) @
        [Preview (take 5 (rows df)), Divider, Subheader ''Visualize Your Data''] @
        picker_widgets df (pickers df ui) @
        [Warning ''Please select at least one item from the box above to generate the chart.'']
    \<and> fst (snd (try_body lib cache file ui)) = None
    \<and> (\<forall>ev\<in>set page. \<not> is_chart ev \<and> \<not> is_error ev)"
proof -
  from numeric empty have plot: "plotting_section lib df ui =
      (picker_widgets df (pickers df ui) @
         [Warning ''Please select at least one item from the box above to generate the chart.''],
       None)"
    by (simp add: plotting_section_def Let_def)
  with loaded show ?thesis
    by (auto simp: main_page_def try_body_def dest: picker_widgets_plain)
qed

theorem empty_selection_warns_witness:
  "\<exists>page c. main_page fixture Map.empty (Some sales_csv) nothing_selected = (page, c)
     \<and> last page = Warning ''Please select at least one item from the box above to generate the chart.''
     \<and> list_all (\<lambda>ev. \<not> is_chart ev \<and> \<not> is_error ev) page"
proof -
  have loaded: "load_data fixture Map.empty sales_csv = (Inr sales, [sales_csv \<mapsto> sales], 1)"
    by (simp add: load_data_def fixture_def sales_csv_def)
  have numeric: "numeric_cols sales \<noteq> []" by (simp add: sales_numeric)
  have empty: "selected_items (pickers sales nothing_selected) = []"
    by (simp add: pickers_def Let_def multiselect_def nothing_selected_def)
  from empty_selection_warns [OF loaded numeric empty]
  show ?thesis by (auto simp: list_all_iff)
qed









section \<open>Properties of the cache\<close>

text \<open>
  C3. When loading a file returns a table, loading the same file again from the
  cache the first load left returns the same table, leaves the cache as it is and
  does not call the parser. The first load calls the parser once when the file was
  not cached, and not at all when it was.
\<close>

theorem load_data_memoized:
  assumes "load_data lib cache file = (Inr df, cache', n)"
  shows "load_data lib cache' file = (Inr df, cache', 0)
    \<and> cache' file = Some df
    \<and> n \<le> 1
    \<and> (n = 1 \<longrightarrow> cache file = None \<and> read_csv lib file = Inr df)
    \<and> (n = 0 \<longrightarrow> cache file = Some df \<and> cache' = cache)"
  using assms by (auto simp: load_data_def split: option.splits sum.splits)

theorem load_data_memoized_witness:
  "load_data fixture Map.empty sales_csv = (Inr sales, [sales_csv \<mapsto> sales], 1)
   \<and> load_data fixture [sales_csv \<mapsto> sales] sales_csv = (Inr sales, [sales_csv \<mapsto> sales], 0)"
proof -
  have first: "load_data fixture Map.empty sales_csv = (Inr sales, [sales_csv \<mapsto> sales], 1)"
    by (simp add: load_data_def fixture_def sales_csv_def)
  from load_data_memoized [OF first] first show ?thesis by simp
qed




end
